theory Spec2Isabelle
  imports Complex_Main
begin

section \<open>Numbers, lists and the random source\<close>

text \<open>
  The optimizer of \<^verbatim>\<open>agents/inventory_optimizer.py\<close> computes with integers
  (stock, demand, quantities, days) and with floats (prices, costs, demand statistics,
  Q-values).

  Floats are modelled as \<open>real\<close>: the model is the arithmetic the code writes down,
  without the rounding error of IEEE doubles. A comparison of two floats that differ by
  rounding error only can therefore fall the other way in the program (a price of exactly
  1.5 times the cost, a demand of exactly 1.2 times the mean); the properties proved of
  the simulation below are about units of stock and do not depend on which way the
  classification of a day or the decision of a day falls.

  Integers are of two kinds in the program. A value read from SQLite, a rounded quantity
  and a counter are Python integers, which are unbounded: they are modelled as \<open>int\<close>.
  An element of the array that \<^verbatim>\<open>astype(int)\<close> returns is a 64-bit NumPy integer, and
  arithmetic with such a value wraps around modulo \<open>2 ^ 64\<close> (\<open>wrap64\<close> below); see
  \<open>int_add\<close> and \<open>int_sub\<close>.
\<close>

text \<open>Python's \<^verbatim>\<open>round(x)\<close> on a float: to the nearest integer, a tie going to the
  even neighbour.\<close>

definition py_round :: "real \<Rightarrow> int" where
  "py_round x =
     (let f = \<lfloor>x\<rfloor>; d = x - of_int f in
      if d < 1 / 2 then f
      else if 1 / 2 < d then f + 1
      else if even f then f else f + 1)"

text \<open>\<^verbatim>\<open>np.mean\<close> and \<^verbatim>\<open>np.std\<close> (the population standard deviation) of a
  non-empty list of integers.\<close>

definition np_mean :: "int list \<Rightarrow> real" where
  "np_mean xs = of_int (sum_list xs) / of_nat (length xs)"

definition np_std :: "int list \<Rightarrow> real" where
  "np_std xs =
     sqrt (sum_list (map (\<lambda>x. (of_int x - np_mean xs)\<^sup>2) xs) / of_nat (length xs))"

text \<open>SQL's \<^verbatim>\<open>AVG\<close> over the selected rows: \<^verbatim>\<open>NULL\<close> when there is no row.\<close>

definition sql_avg :: "int list \<Rightarrow> real option" where
  "sql_avg xs = (if xs = [] then None else Some (of_int (sum_list xs) / of_nat (length xs)))"

text \<open>The value of a 64-bit signed integer after a sum or a difference left the range
  from \<open>- 2 ^ 63\<close> to \<open>2 ^ 63 - 1\<close>: NumPy warns and wraps around.\<close>

definition wrap64 :: "int \<Rightarrow> int" where
  "wrap64 n = (n + 2 ^ 63) mod 2 ^ 64 - 2 ^ 63"

text \<open>\<^verbatim>\<open>astype(int)\<close> on one float of an array: the fraction is cut off, and a value
  outside the 64-bit range becomes \<open>- 2 ^ 63\<close> (the conversion instruction of x86-64).\<close>

definition np_astype_int :: "real \<Rightarrow> int" where
  "np_astype_int x =
     (let t = (if 0 \<le> x then \<lfloor>x\<rfloor> else \<lceil>x\<rceil>)
      in if - (2 ^ 63) \<le> t \<and> t < 2 ^ 63 then t else - (2 ^ 63))"

text \<open>
  A sum and a difference of the simulation's loop. When the demand of the run was drawn
  (\<open>np\<close>), the demand is a 64-bit NumPy integer, and so is every value computed from
  it: the sum wraps. The stock of such a run is a Python integer until the first day that
  sells the whole demand; up to then it is the stock level of the database, or 0, or one
  delivery (below \<open>2 ^ 63\<close>, with 64-bit integers in the database), so that wrapping
  leaves its sums unchanged. When the demand was read from the history, all the values
  are Python integers and nothing wraps.
\<close>

definition int_add :: "bool \<Rightarrow> int \<Rightarrow> int \<Rightarrow> int" where
  "int_add np a b = (if np then wrap64 (a + b) else a + b)"

definition int_sub :: "bool \<Rightarrow> int \<Rightarrow> int \<Rightarrow> int" where
  "int_sub np a b = (if np then wrap64 (a - b) else a - b)"

text \<open>The slice \<^verbatim>\<open>xs[:n]\<close>: a negative \<open>n\<close> counts from the end.\<close>

definition py_slice_to :: "'a list \<Rightarrow> int \<Rightarrow> 'a list" where
  "py_slice_to xs n =
     (if 0 \<le> n then take (nat n) xs else take (length xs - nat (- n)) xs)"

text \<open>
  The random source (\<^verbatim>\<open>np.random\<close>) is a generator with a hidden state \<open>'g\<close>:
  \<open>np_random\<close> is one call of \<^verbatim>\<open>np.random.random()\<close>, \<open>np_normal mean std\<close> one draw
  of a normal variate. Both return the value and the next state. A seed is a state.
\<close>

record 'g rng =
  np_random :: "'g \<Rightarrow> real \<times> 'g"
  np_normal :: "real \<Rightarrow> real \<Rightarrow> 'g \<Rightarrow> real \<times> 'g"

text \<open>\<^verbatim>\<open>np.random.normal(mean, std, n)\<close>: \<open>n\<close> draws, one after the other.\<close>

fun normal_sample :: "'g rng \<Rightarrow> real \<Rightarrow> real \<Rightarrow> nat \<Rightarrow> 'g \<Rightarrow> real list \<times> 'g" where
  "normal_sample R m sd 0 g = ([], g)"
| "normal_sample R m sd (Suc n) g =
     (let (x, g') = np_normal R m sd g;
          (xs, g'') = normal_sample R m sd n g'
      in (x # xs, g''))"

section \<open>Upstream data\<close>

text \<open>
  What the SQL queries of the two operations return for one (product, store) pair:
  \<^item> \<open>price_cost\<close>: the pricing row joined with the cheapest supplier
    (\<^verbatim>\<open>current_price\<close>, \<^verbatim>\<open>cost\<close>), or no row;
  \<^item> \<open>window_sales\<close>: \<^verbatim>\<open>units_sold\<close> of the sales rows of the last 30 calendar days
    (the two queries of \<^verbatim>\<open>calculate_optimal_order_quantity\<close>);
  \<^item> \<open>last_sales\<close>: \<^verbatim>\<open>units_sold\<close> of the 30 most recent sales rows, newest first
    (the query of \<^verbatim>\<open>simulate_policy\<close>);
  \<^item> \<open>stock_level\<close>: the inventory row, or no row;
  \<^item> \<open>min_lead_time\<close>: \<^verbatim>\<open>MIN(lead_time)\<close> over the suppliers, \<^verbatim>\<open>NULL\<close> without one.

  The record holds rows whose columns have a value: a \<^verbatim>\<open>NULL\<close> in \<^verbatim>\<open>current_price\<close>,
  \<^verbatim>\<open>cost\<close>, \<^verbatim>\<open>stock_level\<close> or \<^verbatim>\<open>units_sold\<close> (on which the arithmetic of the two
  operations raises, and the operations return their error dictionary) is outside the
  model, and so is every statement below about it. The integers of a row are the 64-bit
  integers of SQLite.
\<close>

record upstream =
  price_cost :: "(real \<times> real) option"
  window_sales :: "int list"
  last_sales :: "int list"
  stock_level :: "int option"
  min_lead_time :: "int option"

section \<open>The optimizer's constants and its Q-table\<close>

definition holding_cost_rate :: real where "holding_cost_rate = 0.02"
definition stockout_penalty :: real where "stockout_penalty = 0.10"
definition ordering_cost :: real where "ordering_cost = 15.00"
definition learning_rate :: real where "learning_rate = 0.1"
definition discount_factor :: real where "discount_factor = 0.9"
definition exploration_rate :: real where "exploration_rate = 0.2"
definition service_factor :: real where "service_factor = 1.96"

datatype action = Order | Wait

text \<open>An entry of \<^verbatim>\<open>self.q_values\<close> is the dictionary
  \<^verbatim>\<open>{"order": q, "wait": q'}\<close>; every entry the program creates has both keys.\<close>

record q_entry =
  q_order :: real
  q_wait :: real

type_synonym qtable = "string \<rightharpoonup> q_entry"

definition q_get :: "q_entry \<Rightarrow> action \<Rightarrow> real" where
  "q_get e a = (case a of Order \<Rightarrow> q_order e | Wait \<Rightarrow> q_wait e)"

definition q_set :: "q_entry \<Rightarrow> action \<Rightarrow> real \<Rightarrow> q_entry" where
  "q_set e a v = (case a of Order \<Rightarrow> e\<lparr>q_order := v\<rparr> | Wait \<Rightarrow> e\<lparr>q_wait := v\<rparr>)"

definition state_to_key :: "int \<Rightarrow> string \<Rightarrow> string \<Rightarrow> string" where
  "state_to_key stock_lvl demand_level price_ratio =
     (let stock_state =
        (if stock_lvl < 5 then ''very_low''
         else if stock_lvl < 20 then ''low''
         else if stock_lvl < 50 then ''medium_low''
         else if stock_lvl < 100 then ''medium''
         else if stock_lvl < 200 then ''medium_high''
         else ''high'')
      in stock_state @ ''_'' @ demand_level @ ''_'' @ price_ratio)"

definition update_policy :: "qtable \<Rightarrow> string \<Rightarrow> action \<Rightarrow> real \<Rightarrow> string \<Rightarrow> qtable" where
  "update_policy q state_key a reward next_state_key =
     (let q1 = (if q state_key = None
                then q(state_key \<mapsto> \<lparr>q_order = 0, q_wait = 0\<rparr>) else q);
          q2 = (if q1 next_state_key = None
                then q1(next_state_key \<mapsto> \<lparr>q_order = 0, q_wait = 0\<rparr>) else q1);
          current_q = q_get (the (q2 state_key)) a;
          max_next_q = max (q_order (the (q2 next_state_key))) (q_wait (the (q2 next_state_key)));
          updated_q = current_q
            + learning_rate * (reward + discount_factor * max_next_q - current_q)
      in q2(state_key \<mapsto> q_set (the (q2 state_key)) a updated_q))"

section \<open>The classical calculator: \<^verbatim>\<open>calculate_optimal_order_quantity\<close>\<close>

text \<open>
  The result dictionary: either the sentinel
  \<^verbatim>\<open>{"order_quantity": 0, "reorder_point": 0, "message": m}\<close> or the recommendation.
\<close>

record recommendation =
  order_quantity :: int
  reorder_point :: int
  economic_order_quantity :: int
  safety_stock :: int
  avg_demand :: real
  lead_time :: int
  current_stock :: int
  should_order :: bool
  state_key :: string

datatype order_result = Sentinel string | Recommendation recommendation

text \<open>\<^verbatim>\<open>eoq_result.get("reorder_point", 0)\<close> and
  \<^verbatim>\<open>eoq_result.get("economic_order_quantity", 0)\<close>: the sentinel holds a
  \<^verbatim>\<open>reorder_point\<close> of 0 and no \<^verbatim>\<open>economic_order_quantity\<close>.\<close>

definition get_reorder_point :: "order_result \<Rightarrow> int" where
  "get_reorder_point r = (case r of Sentinel m \<Rightarrow> 0 | Recommendation x \<Rightarrow> reorder_point x)"

definition get_economic_order_quantity :: "order_result \<Rightarrow> int" where
  "get_economic_order_quantity r =
     (case r of Sentinel m \<Rightarrow> 0 | Recommendation x \<Rightarrow> economic_order_quantity x)"

text \<open>Lines 53 and 64: the demand estimate of the calculator, from the mean \<open>a\<close> that SQL
  returned and the list of the window's rows.\<close>

definition eoq_avg_demand :: "real \<Rightarrow> real" where
  "eoq_avg_demand a = max 0.1 a"

definition eoq_std_demand :: "int list \<Rightarrow> real \<Rightarrow> real" where
  "eoq_std_demand sales_data avg =
     (if sales_data \<noteq> [] then np_std sales_data else max 1 (avg * 0.3))"

text \<open>Lines 81 to 96.\<close>

definition holding_cost_of :: "real \<Rightarrow> real" where
  "holding_cost_of cost = max 0.001 (cost * holding_cost_rate)"

definition annual_demand_of :: "real \<Rightarrow> real" where
  "annual_demand_of avg = avg * 365"

definition eoq_of :: "real \<Rightarrow> real \<Rightarrow> int" where
  "eoq_of avg cost =
     max 1 (py_round (sqrt ((2 * annual_demand_of avg * ordering_cost) / holding_cost_of cost)))"

definition safety_stock_of :: "real \<Rightarrow> int \<Rightarrow> int" where
  "safety_stock_of std lt = max 0 (py_round (service_factor * std * sqrt (of_int lt)))"

definition reorder_point_of :: "real \<Rightarrow> int \<Rightarrow> int \<Rightarrow> int" where
  "reorder_point_of avg lt ss = max 1 (py_round (avg * of_int lt + of_int ss))"

text \<open>Lines 99 to 111: the two levels of the calculator's state key.\<close>

definition eoq_demand_level :: "real \<Rightarrow> real \<Rightarrow> string" where
  "eoq_demand_level std avg =
     (if avg > 0 then
        (if std / avg > 0.5 then ''high''
         else if std / avg < 0.2 then ''low'' else ''medium'')
      else ''medium'')"

definition eoq_price_ratio :: "real \<Rightarrow> real \<Rightarrow> string" where
  "eoq_price_ratio price cost =
     (if cost > 0 then
        (if price / cost > 2 then ''high''
         else if price / cost < 1.5 then ''low'' else ''medium'')
      else ''medium'')"

text \<open>Lines 116 to 127: the reorder-point trigger, overridden by the Q-table when the key
  is known, the draw exceeds the exploration rate and one value leads by more than 10.
  The draw is made only when the key is in the table (\<^verbatim>\<open>and\<close> short-circuits).\<close>

definition eoq_should_order ::
  "'g rng \<Rightarrow> qtable \<Rightarrow> string \<Rightarrow> int \<Rightarrow> int \<Rightarrow> 'g \<Rightarrow> bool \<times> 'g" where
  "eoq_should_order R q key cur_stock rp g =
     (let trigger = (cur_stock \<le> rp) in
      case q key of
        None \<Rightarrow> (trigger, g)
      | Some e \<Rightarrow>
          (let (u, g') = np_random R g in
           if u > exploration_rate then
             (if q_order e > q_wait e + 10 then (True, g')
              else if q_wait e > q_order e + 10 then (False, g')
              else (trigger, g'))
           else (trigger, g')))"

text \<open>
  The whole operation. A negative lead time makes \<^verbatim>\<open>np.sqrt(lead_time)\<close> NaN, and
  \<^verbatim>\<open>round\<close> of NaN raises; the \<^verbatim>\<open>except\<close> clause turns that into a sentinel.
\<close>

definition calculate_optimal_order_quantity ::
  "'g rng \<Rightarrow> upstream \<Rightarrow> qtable \<Rightarrow> 'g \<Rightarrow> order_result \<times> 'g" where
  "calculate_optimal_order_quantity R up q g =
     (case price_cost up of
        None \<Rightarrow> (Sentinel ''No pricing or supplier data'', g)
      | Some (price, cost) \<Rightarrow>
         (case sql_avg (window_sales up) of
            None \<Rightarrow> (Sentinel ''Insufficient sales history'', g)
          | Some a \<Rightarrow>
             (let avg = eoq_avg_demand a;
                  std = eoq_std_demand (window_sales up) avg;
                  cur_stock = (case stock_level up of Some s \<Rightarrow> s | None \<Rightarrow> 0);
                  lt = (case min_lead_time up of Some l \<Rightarrow> l | None \<Rightarrow> 7)
              in if lt < 0 then (Sentinel ''Error: cannot convert float NaN to integer'', g)
                 else
                  (let eoq = eoq_of avg cost;
                       ss = safety_stock_of std lt;
                       rp = reorder_point_of avg lt ss;
                       key = state_to_key cur_stock (eoq_demand_level std avg)
                               (eoq_price_ratio price cost);
                       (so, g') = eoq_should_order R q key cur_stock rp g;
                       oq = (if so then max 0 (eoq - cur_stock + rp) else 0)
                   in (Recommendation
                        \<lparr>order_quantity = oq, reorder_point = rp,
                         economic_order_quantity = eoq, safety_stock = ss,
                         avg_demand = avg, lead_time = lt, current_stock = cur_stock,
                         should_order = so, state_key = key\<rparr>, g')))))"

section \<open>The simulation: \<^verbatim>\<open>simulate_policy\<close>\<close>

text \<open>One entry of \<^verbatim>\<open>daily_results\<close>.\<close>

record day_record =
  d_day :: int
  d_demand :: int
  d_sold :: int
  d_missed :: int
  d_stock :: int
  d_ordered :: int
  d_revenue :: real
  d_profit :: real
  d_action :: action
  d_state :: string

text \<open>The variables the loop changes, with the Q-table and the generator's state.\<close>

record 'g loop_state =
  stock :: int
  total_profit :: real
  stockout_days :: int
  holding_cost_total :: real
  ordering_cost_total :: real
  revenue_total :: real
  days_to_delivery :: int
  pending_delivery :: int
  daily_results :: "day_record list"
  q_values :: qtable
  rng_state :: 'g

text \<open>The variables the loop only reads.\<close>

record sim_env =
  e_price :: real
  e_cost :: real
  e_mean_demand :: real
  e_lead_time :: int
  e_daily_demand :: "int list"
  e_days :: int
  e_drawn :: bool

text \<open>The returned dictionary.\<close>

record sim_result =
  res_total_profit :: real
  res_revenue :: real
  res_stockout_days :: int
  res_service_level :: real
  res_holding_cost :: real
  res_ordering_cost :: real
  res_inventory_turnover :: real
  res_final_stock :: int
  res_daily_results :: "day_record list"

text \<open>Lines 214 to 220: the demand estimate of the simulation.\<close>

definition sim_demand_stats :: "int list \<Rightarrow> real \<times> real" where
  "sim_demand_stats demand_history =
     (if demand_history = [] then (10, 3)
      else (np_mean demand_history, max 1 (np_std demand_history)))"

text \<open>Lines 248 to 252: the demand of each day, from the history when it is long enough
  (a list of Python integers), else drawn (an array of 64-bit integers).\<close>

definition make_daily_demand ::
  "'g rng \<Rightarrow> int list \<Rightarrow> real \<Rightarrow> real \<Rightarrow> int \<Rightarrow> 'g \<Rightarrow> int list \<times> 'g" where
  "make_daily_demand R demand_history mean std days g =
     (if days \<le> int (length demand_history) then (py_slice_to demand_history days, g)
      else (let (xs, g') = normal_sample R mean std (nat days) g
            in (map (\<lambda>x. np_astype_int (max 1 x)) xs, g')))"

text \<open>Lines 260 to 264: a pending delivery comes one day closer, and arrives.\<close>

definition receive_delivery :: "sim_env \<Rightarrow> 'g loop_state \<Rightarrow> 'g loop_state" where
  "receive_delivery E s =
     (if days_to_delivery s > 0 then
        (if days_to_delivery s - 1 = 0
         then s\<lparr>stock := int_add (e_drawn E) (stock s) (pending_delivery s),
                 days_to_delivery := 0,
                 pending_delivery := 0\<rparr>
         else s\<lparr>days_to_delivery := days_to_delivery s - 1\<rparr>)
      else s)"

text \<open>Lines 267 and 268 (and 337).\<close>

definition sim_demand_level :: "real \<Rightarrow> int \<Rightarrow> string" where
  "sim_demand_level mean demand =
     (if of_int demand > mean * 1.2 then ''high''
      else if of_int demand < mean * 0.8 then ''low'' else ''medium'')"

definition sim_price_ratio :: "real \<Rightarrow> real \<Rightarrow> string" where
  "sim_price_ratio price cost =
     (if price > cost * 2 then ''high''
      else if price < cost * 1.5 then ''low'' else ''medium'')"

text \<open>Lines 280 to 287: the decision of the day. With the key in the table a draw is
  made; above the exploration rate the table alone decides.\<close>

definition sim_should_order ::
  "'g rng \<Rightarrow> qtable \<Rightarrow> string \<Rightarrow> bool \<Rightarrow> 'g \<Rightarrow> bool \<times> 'g" where
  "sim_should_order R q key should_order_eoq g =
     (case q key of
        None \<Rightarrow> (should_order_eoq, g)
      | Some e \<Rightarrow>
          (let (u, g') = np_random R g in
           if u > exploration_rate then (q_order e > q_wait e, g')
           else (should_order_eoq, g')))"

text \<open>Lines 260 to 344: one day, for the demand of the day and of the next.\<close>

definition day_body ::
  "'g rng \<Rightarrow> upstream \<Rightarrow> sim_env \<Rightarrow> nat \<Rightarrow> int \<Rightarrow> int \<Rightarrow> 'g loop_state \<Rightarrow> 'g loop_state" where
  "day_body R up E day demand next_demand s =
     (let s1 = receive_delivery E s;
          price_ratio = sim_price_ratio (e_price E) (e_cost E);
          key = state_to_key (stock s1) (sim_demand_level (e_mean_demand E) demand) price_ratio;
          (eoq_result, g1) = calculate_optimal_order_quantity R up (q_values s1) (rng_state s1);
          should_order_eoq =
            (stock s1 \<le> get_reorder_point eoq_result \<and> days_to_delivery s1 = 0);
          (so, g2) = sim_should_order R (q_values s1) key should_order_eoq g1;
          place = (so \<and> days_to_delivery s1 = 0);
          oq = (if place then get_economic_order_quantity eoq_result else 0);
          act = (if place then Order else Wait);
          sold = min (stock s1) demand;
          missed = int_sub (e_drawn E) demand sold;
          stock' = int_sub (e_drawn E) (stock s1) sold;
          revenue = of_int sold * e_price E;
          cogs = of_int sold * e_cost E;
          holding_cost = of_int stock' * (e_cost E * holding_cost_rate / 365);
          stockout_cost = of_int missed * (e_price E * stockout_penalty);
          day_profit = revenue - cogs - holding_cost - stockout_cost
                         - (if act = Order then ordering_cost else 0);
          next_key = state_to_key stock' (sim_demand_level (e_mean_demand E) next_demand)
                       price_ratio
      in \<lparr>stock = stock',
          total_profit = total_profit s1 + day_profit,
          stockout_days = stockout_days s1 + (if missed > 0 then 1 else 0),
          holding_cost_total = holding_cost_total s1 + holding_cost,
          ordering_cost_total = ordering_cost_total s1 + (if place then ordering_cost else 0),
          revenue_total = revenue_total s1 + revenue,
          days_to_delivery = (if place then e_lead_time E else days_to_delivery s1),
          pending_delivery = (if place then oq else pending_delivery s1),
          daily_results = daily_results s1 @
            [\<lparr>d_day = int day + 1, d_demand = demand, d_sold = sold, d_missed = missed,
              d_stock = stock', d_ordered = oq, d_revenue = revenue, d_profit = day_profit,
              d_action = act, d_state = key\<rparr>],
          q_values = update_policy (q_values s1) key act day_profit next_key,
          rng_state = g2\<rparr>)"

text \<open>The two reads of \<^verbatim>\<open>daily_demand\<close>, at \<^verbatim>\<open>day\<close> and at
  \<^verbatim>\<open>min(day+1, days-1)\<close>: outside the list Python raises IndexError, which the
  \<^verbatim>\<open>except\<close> clause of \<^verbatim>\<open>simulate_policy\<close> reports. The state comes with the error, for
  the Q-table the run has changed so far.\<close>

definition simulate_day ::
  "'g rng \<Rightarrow> upstream \<Rightarrow> sim_env \<Rightarrow> nat \<Rightarrow> 'g loop_state
    \<Rightarrow> (string \<times> 'g loop_state) + 'g loop_state" where
  "simulate_day R up E day s =
     (let j = nat (min (int day + 1) (e_days E - 1)) in
      if day < length (e_daily_demand E) \<and> j < length (e_daily_demand E)
      then Inr (day_body R up E day (e_daily_demand E ! day) (e_daily_demand E ! j) s)
      else Inl (''Simulation error: list index out of range'', s))"

text \<open>\<^verbatim>\<open>for day in range(days)\<close>: \<open>n\<close> more days from day \<open>day\<close>.\<close>

fun simulate_loop ::
  "'g rng \<Rightarrow> upstream \<Rightarrow> sim_env \<Rightarrow> nat \<Rightarrow> nat \<Rightarrow> 'g loop_state
    \<Rightarrow> (string \<times> 'g loop_state) + 'g loop_state" where
  "simulate_loop R up E day 0 s = Inr s"
| "simulate_loop R up E day (Suc n) s =
     (case simulate_day R up E day s of
        Inl e \<Rightarrow> Inl e
      | Inr s' \<Rightarrow> simulate_loop R up E (Suc day) n s')"

text \<open>Lines 204 to 252: the loop's environment and its first state.\<close>

definition sim_current_stock :: "upstream \<Rightarrow> int" where
  "sim_current_stock up = (case stock_level up of Some s \<Rightarrow> s | None \<Rightarrow> 50)"

definition sim_lead_time :: "upstream \<Rightarrow> int" where
  "sim_lead_time up = (case min_lead_time up of Some l \<Rightarrow> l | None \<Rightarrow> 7)"

definition sim_setup ::
  "'g rng \<Rightarrow> upstream \<Rightarrow> real \<Rightarrow> real \<Rightarrow> qtable \<Rightarrow> 'g \<Rightarrow> int \<Rightarrow> sim_env \<times> 'g loop_state" where
  "sim_setup R up price cost q g days =
     (let (mean, std) = sim_demand_stats (last_sales up);
          (daily_demand, g') = make_daily_demand R (last_sales up) mean std days g
      in (\<lparr>e_price = price, e_cost = cost, e_mean_demand = mean,
           e_lead_time = sim_lead_time up, e_daily_demand = daily_demand, e_days = days,
           e_drawn = (\<not> days \<le> int (length (last_sales up)))\<rparr>,
          \<lparr>stock = sim_current_stock up, total_profit = 0, stockout_days = 0,
           holding_cost_total = 0, ordering_cost_total = 0, revenue_total = 0,
           days_to_delivery = 0, pending_delivery = 0, daily_results = [],
           q_values = q, rng_state = g'\<rparr>))"

text \<open>Lines 347 to 363: the metrics of the run.\<close>

definition sim_summary ::
  "upstream \<Rightarrow> sim_env \<Rightarrow> real \<Rightarrow> int \<Rightarrow> 'g loop_state \<Rightarrow> sim_result" where
  "sim_summary up E cost days s =
     (let service_level =
            (if days > 0 then 1 - of_int (stockout_days s) / of_int days else 0);
          total = int_add (e_drawn E) (sim_current_stock up) (stock s);
          avg_inventory = (if total > 0 then of_int total / 2 else 1);
          inventory_turnover =
            (if cost > 0 \<and> avg_inventory > 0
             then revenue_total s / (cost * avg_inventory) else 0)
      in \<lparr>res_total_profit = total_profit s, res_revenue = revenue_total s,
          res_stockout_days = stockout_days s, res_service_level = service_level,
          res_holding_cost = holding_cost_total s,
          res_ordering_cost = ordering_cost_total s,
          res_inventory_turnover = inventory_turnover, res_final_stock = stock s,
          res_daily_results = daily_results s\<rparr>)"

text \<open>
  The whole operation: the error dictionary \<^verbatim>\<open>{"error": m}\<close> or the result, with the
  Q-table and the generator as the call leaves them.
\<close>

definition simulate_policy ::
  "'g rng \<Rightarrow> upstream \<Rightarrow> qtable \<Rightarrow> 'g \<Rightarrow> int \<Rightarrow> (string + sim_result) \<times> qtable \<times> 'g" where
  "simulate_policy R up q g days =
     (case price_cost up of
        None \<Rightarrow> (Inl ''No pricing or supplier data available'', q, g)
      | Some (price, cost) \<Rightarrow>
         (let (E, s0) = sim_setup R up price cost q g days in
          case simulate_loop R up E 0 (nat days) s0 of
            Inl (m, s) \<Rightarrow> (Inl m, q_values s, rng_state s)
          | Inr s \<Rightarrow> (Inr (sim_summary up E cost days s), q_values s, rng_state s)))"

section \<open>Observations of a run\<close>

text \<open>What the delivery step of a day puts on the shelf: the pending quantity on the day
  the countdown goes from 1 to 0, nothing on any other day.\<close>

definition delivered :: "'g loop_state \<Rightarrow> int" where
  "delivered s = (if days_to_delivery s = 1 then pending_delivery s else 0)"

text \<open>A constant generator, for concrete runs: every uniform draw is 1/2 and every normal
  draw is the mean; the state counts the draws.\<close>

definition ex_rng :: "nat rng" where
  "ex_rng = \<lparr>np_random = (\<lambda>g. (1 / 2, Suc g)), np_normal = (\<lambda>m sd g. (m, Suc g))\<rparr>"

text \<open>The scenario of the specification: thirty days of 10 units sold, price 12, cost 5,
  lead time 7, and an empty shelf.\<close>

definition scenario :: upstream where
  "scenario = \<lparr>price_cost = Some (12, 5), window_sales = replicate 30 10,
     last_sales = replicate 30 10, stock_level = Some 0, min_lead_time = Some 7\<rparr>"

text \<open>A product with pricing and a supplier and no sales row at all.\<close>

definition no_history :: upstream where
  "no_history = \<lparr>price_cost = Some (12, 5), window_sales = [], last_sales = [],
     stock_level = Some 20, min_lead_time = Some 7\<rparr>"

text \<open>A product with one sales row of 10 units, an empty shelf and a lead time of one
  day; and the same product with the largest stock level the database can hold.\<close>

definition restock :: upstream where
  "restock = \<lparr>price_cost = Some (12, 5), window_sales = [10], last_sales = [10],
     stock_level = Some 0, min_lead_time = Some 1\<rparr>"

definition full_shelf :: upstream where
  "full_shelf = \<lparr>price_cost = Some (12, 5), window_sales = [10], last_sales = [10],
     stock_level = Some 9223372036854775807, min_lead_time = Some 1\<rparr>"

section \<open>Rounding and statistics\<close>

lemma py_round_near:
  assumes "of_int n - 1 / 2 < y" "y < of_int n + 1 / 2"
  shows "py_round y = n"
proof -
  have "\<lfloor>y\<rfloor> = n \<or> \<lfloor>y\<rfloor> = n - 1" using assms by linarith
  then show ?thesis
  proof
    assume f: "\<lfloor>y\<rfloor> = n"
    then show ?thesis using assms by (simp add: py_round_def Let_def)
  next
    assume f: "\<lfloor>y\<rfloor> = n - 1"
    then show ?thesis using assms by (simp add: py_round_def Let_def)
  qed
qed

lemma py_round_of_int: "py_round (of_int k) = k"
  by (simp add: py_round_def Let_def)

lemma py_round_sqrt:
  assumes "(of_int n - 1 / 2)\<^sup>2 < x" "x < (of_int n + 1 / 2)\<^sup>2" "1 \<le> n"
  shows "py_round (sqrt x) = n"
proof -
  have "of_int n - 1 / 2 < sqrt x" using assms(1) by (rule real_less_rsqrt)
  moreover have "sqrt x < of_int n + 1 / 2"
    using assms by (intro real_less_lsqrt) auto
  ultimately show ?thesis by (rule py_round_near)
qed

lemma sqrt_ex: "py_round (sqrt 1095000) = 1046"
  using py_round_sqrt[of 1046 1095000] by (simp add: power2_eq_square)

lemma np_mean_replicate: "0 < n \<Longrightarrow> np_mean (replicate n x) = of_int x"
  by (simp add: np_mean_def sum_list_replicate)

lemma np_std_replicate: "0 < n \<Longrightarrow> np_std (replicate n x) = 0"
  by (simp add: np_std_def np_mean_replicate sum_list_replicate)

lemma sql_avg_replicate: "0 < n \<Longrightarrow> sql_avg (replicate n x) = Some (of_int x)"
  by (simp add: sql_avg_def sum_list_replicate)

lemma eoq_ex: "eoq_of 10 5 = 1046"
  using sqrt_ex by (simp add: eoq_of_def annual_demand_of_def holding_cost_of_def ordering_cost_def holding_cost_rate_def)

lemma ss_ex: "safety_stock_of 0 7 = 0"
  by (simp add: safety_stock_of_def py_round_def)

lemma rp_ex: "reorder_point_of 10 7 0 = 70"
  using py_round_of_int[of 70] by (simp add: reorder_point_of_def)

section \<open>The loop\<close>

lemma normal_sample_length_aux: "normal_sample R m sd n g = (xs, g') \<Longrightarrow> length xs = n"
  by (induction n arbitrary: g xs g') (auto simp: Let_def split: prod.splits)

lemma normal_sample_length: "length (fst (normal_sample R m sd n g)) = n"
  using normal_sample_length_aux[of R m sd n g] by (cases "normal_sample R m sd n g") simp

lemma make_daily_demand_length:
  "0 \<le> days \<Longrightarrow> length (fst (make_daily_demand R h m sd days g)) = nat days"
  using normal_sample_length[of R m sd "nat days" g]
  by (auto simp: make_daily_demand_def py_slice_to_def Let_def split: prod.splits)

lemma sim_setup_env:
  assumes "sim_setup R up price cost q g days = (E, s0)"
  shows "e_days E = days" "e_price E = price" "e_cost E = cost"
    "e_lead_time E = sim_lead_time up"
    "e_mean_demand E = fst (sim_demand_stats (last_sales up))"
    "e_daily_demand E = fst (make_daily_demand R (last_sales up)
        (fst (sim_demand_stats (last_sales up))) (snd (sim_demand_stats (last_sales up))) days g)"
    "e_drawn E = (\<not> days \<le> int (length (last_sales up)))"
  using assms by (auto simp: sim_setup_def Let_def split: prod.splits)

lemma sim_setup_state:
  assumes "sim_setup R up price cost q g days = (E, s0)"
  shows "stock s0 = sim_current_stock up" "days_to_delivery s0 = 0" "pending_delivery s0 = 0"
    "daily_results s0 = []" "q_values s0 = q" "ordering_cost_total s0 = 0"
  using assms by (auto simp: sim_setup_def Let_def split: prod.splits)

lemma sim_setup_length:
  assumes "sim_setup R up price cost q g days = (E, s0)" "0 \<le> days"
  shows "length (e_daily_demand E) = nat (e_days E)"
  using assms make_daily_demand_length[of days] sim_setup_env[OF assms(1)] by simp

lemma int_add_0 [simp]: "int_add False a b = a + b" "int_sub False a b = a - b"
  by (simp_all add: int_add_def int_sub_def)

lemma wrap64_id: "- (2 ^ 63) \<le> n \<Longrightarrow> n < 2 ^ 63 \<Longrightarrow> wrap64 n = n"
  by (simp add: wrap64_def)

lemma int_add_id: "- (2 ^ 63) \<le> a + b \<Longrightarrow> a + b < 2 ^ 63 \<Longrightarrow> int_add np a b = a + b"
  by (simp add: int_add_def wrap64_id)

lemma int_sub_id: "- (2 ^ 63) \<le> a - b \<Longrightarrow> a - b < 2 ^ 63 \<Longrightarrow> int_sub np a b = a - b"
  by (simp add: int_sub_def wrap64_id)

lemma receive_delivery_fields:
  "stock (receive_delivery E s) =
     (if days_to_delivery s = 1 then int_add (e_drawn E) (stock s) (pending_delivery s)
      else stock s)"
  "days_to_delivery (receive_delivery E s) = (if days_to_delivery s > 0 then days_to_delivery s - 1 else days_to_delivery s)"
  "pending_delivery (receive_delivery E s) = (if days_to_delivery s = 1 then 0 else pending_delivery s)"
  "daily_results (receive_delivery E s) = daily_results s"
  "q_values (receive_delivery E s) = q_values s"
  "rng_state (receive_delivery E s) = rng_state s"
  "ordering_cost_total (receive_delivery E s) = ordering_cost_total s"
  by (auto simp: receive_delivery_def)

lemma receive_delivery_same:
  "daily_results (receive_delivery E s) = daily_results s"
  "q_values (receive_delivery E s) = q_values s"
  "rng_state (receive_delivery E s) = rng_state s"
  "ordering_cost_total (receive_delivery E s) = ordering_cost_total s"
  by (simp_all add: receive_delivery_def)

lemma simulate_day_ok:
  assumes "length (e_daily_demand E) = nat (e_days E)" "k < nat (e_days E)"
  shows "simulate_day R up E k s =
    Inr (day_body R up E k (e_daily_demand E ! k)
          (e_daily_demand E ! nat (min (int k + 1) (e_days E - 1))) s)"
  using assms by (auto simp: simulate_day_def Let_def)

lemma simulate_day_Inr:
  assumes "simulate_day R up E k s = Inr s'"
  shows "s' = day_body R up E k (e_daily_demand E ! k)
          (e_daily_demand E ! nat (min (int k + 1) (e_days E - 1))) s"
  using assms by (auto simp: simulate_day_def Let_def split: if_splits)

lemma loop_Suc_end:
  "simulate_loop R up E d (Suc n) s =
     (case simulate_loop R up E d n s of
        Inl e \<Rightarrow> Inl e
      | Inr s' \<Rightarrow> simulate_day R up E (d + n) s')"
proof (induction n arbitrary: d s)
  case 0
  then show ?case by (simp split: sum.splits)
next
  case (Suc n)
  show ?case
  proof (cases "simulate_day R up E d s")
    case (Inl e)
    then show ?thesis by simp
  next
    case (Inr s1)
    have L: "simulate_loop R up E d (Suc (Suc n)) s = simulate_loop R up E (Suc d) (Suc n) s1"
      using Inr by simp
    have M: "simulate_loop R up E d (Suc n) s = simulate_loop R up E (Suc d) n s1"
      using Inr by simp
    show ?thesis unfolding L M using Suc.IH[of "Suc d" s1]
      by (simp del: simulate_loop.simps cong: sum.case_cong)
  qed
qed

lemma loop_ok:
  assumes "length (e_daily_demand E) = nat (e_days E)"
  shows "d + n \<le> nat (e_days E) \<Longrightarrow> \<exists>s'. simulate_loop R up E d n s = Inr s'"
proof (induction n arbitrary: d s)
  case 0
  then show ?case by simp
next
  case (Suc n)
  have "d < nat (e_days E)" using Suc.prems by simp
  from simulate_day_ok[OF assms this, of R up s]
  obtain s1 where s1: "simulate_day R up E d s = Inr s1" by blast
  have "Suc d + n \<le> nat (e_days E)" using Suc.prems by simp
  from Suc.IH[OF this, of s1] show ?case using s1 by simp
qed

lemma day_body_results:
  "\<exists>r. daily_results (day_body R up E k d nd s) = daily_results s @ [r]"
  by (simp add: day_body_def Let_def receive_delivery_fields split: prod.splits)

lemma loop_results_length:
  "simulate_loop R up E d n s = Inr s' \<Longrightarrow>
     \<exists>rs. daily_results s' = daily_results s @ rs \<and> length rs = n"
proof (induction n arbitrary: d s)
  case 0
  then show ?case by simp
next
  case (Suc n)
  from Suc.prems obtain s1 where s1: "simulate_day R up E d s = Inr s1"
    and rest: "simulate_loop R up E (Suc d) n s1 = Inr s'"
    by (auto split: sum.splits)
  from simulate_day_Inr[OF s1] day_body_results
  obtain r where r: "daily_results s1 = daily_results s @ [r]" by metis
  from Suc.IH[OF rest] obtain rs where "daily_results s' = daily_results s1 @ rs" "length rs = n"
    by blast
  then show ?case using r by simp
qed

section \<open>What the calculator returns\<close>

lemma calc_Recommendation:
  assumes "calculate_optimal_order_quantity R up q g = (Recommendation r, g')"
  shows "\<exists>price cost a.
     price_cost up = Some (price, cost) \<and> sql_avg (window_sales up) = Some a \<and>
     0 \<le> lead_time r \<and>
     avg_demand r = eoq_avg_demand a \<and>
     lead_time r = (case min_lead_time up of Some l \<Rightarrow> l | None \<Rightarrow> 7) \<and>
     current_stock r = (case stock_level up of Some s \<Rightarrow> s | None \<Rightarrow> 0) \<and>
     economic_order_quantity r = eoq_of (avg_demand r) cost \<and>
     safety_stock r =
       safety_stock_of (eoq_std_demand (window_sales up) (avg_demand r)) (lead_time r) \<and>
     reorder_point r = reorder_point_of (avg_demand r) (lead_time r) (safety_stock r) \<and>
     state_key r = state_to_key (current_stock r)
        (eoq_demand_level (eoq_std_demand (window_sales up) (avg_demand r)) (avg_demand r))
        (eoq_price_ratio price cost) \<and>
     should_order r =
       fst (eoq_should_order R q (state_key r) (current_stock r) (reorder_point r) g) \<and>
     g' = snd (eoq_should_order R q (state_key r) (current_stock r) (reorder_point r) g) \<and>
     order_quantity r =
       (if should_order r
        then max 0 (economic_order_quantity r - current_stock r + reorder_point r) else 0)"
  using assms
  by (auto simp: calculate_optimal_order_quantity_def Let_def
      split: option.splits prod.splits if_splits)

lemma get_eoq_nonneg: "0 \<le> get_economic_order_quantity (fst (calculate_optimal_order_quantity R up q g))"
proof (cases "calculate_optimal_order_quantity R up q g")
  case (Pair res g')
  show ?thesis
  proof (cases res)
    case (Sentinel m)
    then show ?thesis using Pair by (simp add: get_economic_order_quantity_def)
  next
    case (Recommendation r)
    from calc_Recommendation[OF Pair[unfolded Recommendation]]
    obtain cost where "economic_order_quantity r = eoq_of (avg_demand r) cost" by blast
    then show ?thesis using Pair Recommendation
      by (simp add: get_economic_order_quantity_def eoq_of_def)
  qed
qed

section \<open>A run, day by day\<close>

lemma simulate_policy_run:
  assumes pc: "price_cost up = Some (price, cost)"
    and su: "sim_setup R up price cost q g days = (E, s0)"
  shows "\<exists>sf. simulate_loop R up E 0 (nat days) s0 = Inr sf \<and>
     simulate_policy R up q g days = (Inr (sim_summary up E cost days sf), q_values sf, rng_state sf)"
proof (cases "0 \<le> days")
  case True
  have len: "length (e_daily_demand E) = nat (e_days E)"
    using sim_setup_length[OF su True] .
  have "0 + nat days \<le> nat (e_days E)" using sim_setup_env(1)[OF su] by simp
  from loop_ok[OF len this, of R up s0]
  obtain sf where sf: "simulate_loop R up E 0 (nat days) s0 = Inr sf" by blast
  then show ?thesis using pc su by (simp add: simulate_policy_def)
next
  case False
  then have "nat days = 0" by simp
  then show ?thesis using pc su by (simp add: simulate_policy_def)
qed

lemma loop_add:
  "simulate_loop R up E d (m + n) s =
     (case simulate_loop R up E d m s of
        Inl e \<Rightarrow> Inl e
      | Inr s' \<Rightarrow> simulate_loop R up E (d + m) n s')"
proof (induction m arbitrary: d s)
  case 0
  then show ?case by simp
next
  case (Suc m)
  show ?case
  proof (cases "simulate_day R up E d s")
    case (Inl e)
    then show ?thesis by simp
  next
    case (Inr s1)
    then show ?thesis using Suc.IH[of "Suc d" s1] by (simp cong: sum.case_cong)
  qed
qed

lemma run_day:
  assumes pc: "price_cost up = Some (price, cost)"
    and su: "sim_setup R up price cost q g days = (E, s0)"
    and k: "k < nat days"
  shows "\<exists>res s s'. fst (simulate_policy R up q g days) = Inr res \<and>
     length (res_daily_results res) = nat days \<and>
     simulate_loop R up E 0 k s0 = Inr s \<and>
     simulate_day R up E k s = Inr s' \<and>
     simulate_loop R up E 0 (Suc k) s0 = Inr s' \<and>
     s' = day_body R up E k (e_daily_demand E ! k)
            (e_daily_demand E ! nat (min (int k + 1) (e_days E - 1))) s \<and>
     length (daily_results s) = k \<and>
     daily_results s' = take (Suc k) (res_daily_results res) \<and>
     res_daily_results res ! k = last (daily_results s')"
proof -
  have days: "0 \<le> days" using k by simp
  have ed: "e_days E = days" using sim_setup_env(1)[OF su] .
  have len: "length (e_daily_demand E) = nat (e_days E)"
    using sim_setup_length[OF su days] .
  from simulate_policy_run[OF pc su] obtain sf where
    sf: "simulate_loop R up E 0 (nat days) s0 = Inr sf"
    and res: "simulate_policy R up q g days = (Inr (sim_summary up E cost days sf), q_values sf, rng_state sf)"
    by blast
  have "0 + k \<le> nat (e_days E)" using k ed by simp
  from loop_ok[OF len this, of R up s0] obtain s where s: "simulate_loop R up E 0 k s0 = Inr s"
    by blast
  have kk: "k < nat (e_days E)" using k ed by simp
  define s' where "s' = day_body R up E k (e_daily_demand E ! k)
            (e_daily_demand E ! nat (min (int k + 1) (e_days E - 1))) s"
  have day: "simulate_day R up E k s = Inr s'"
    unfolding s'_def by (rule simulate_day_ok[OF len kk])
  have suc: "simulate_loop R up E 0 (Suc k) s0 = Inr s'"
    using loop_Suc_end[of R up E 0 k s0] s day by simp
  have split: "nat days = Suc k + (nat days - Suc k)" using k by simp
  have rest: "simulate_loop R up E (Suc k) (nat days - Suc k) s' = Inr sf"
    using loop_add[of R up E 0 "Suc k" "nat days - Suc k" s0] suc sf split by simp
  from loop_results_length[OF s] su have ls: "length (daily_results s) = k"
    by (auto simp: sim_setup_state(4)[OF su])
  from loop_results_length[OF suc] have ls': "length (daily_results s') = Suc k"
    by (auto simp: sim_setup_state(4)[OF su])
  from loop_results_length[OF rest] obtain rs where
    rs: "daily_results sf = daily_results s' @ rs" "length rs = nat days - Suc k" by blast
  from loop_results_length[OF sf] have lf: "length (daily_results sf) = nat days"
    by (auto simp: sim_setup_state(4)[OF su])
  have dres: "res_daily_results (sim_summary up E cost days sf) = daily_results sf"
    by (simp add: sim_summary_def Let_def)
  have tk: "daily_results s' = take (Suc k) (daily_results sf)"
    using rs ls' by simp
  have nth: "daily_results sf ! k = last (daily_results s')"
  proof -
    have ne: "daily_results s' \<noteq> []" using ls' by auto
    have "daily_results sf ! k = daily_results s' ! k"
      using rs ls' by (simp add: nth_append)
    also have "\<dots> = last (daily_results s')"
      using last_conv_nth[OF ne] ls' by simp
    finally show ?thesis .
  qed
  show ?thesis
    using res s day suc s'_def ls tk nth lf dres by simp
qed

lemma day_body_facts:
  fixes R up E k d nd s
  defines "s1 \<equiv> receive_delivery E s"
    and "s' \<equiv> day_body R up E k d nd s"
  defines "r \<equiv> last (daily_results s')"
    and "calc \<equiv> calculate_optimal_order_quantity R up (q_values s) (rng_state s)"
  defines "key \<equiv> state_to_key (stock s1) (sim_demand_level (e_mean_demand E) d)
             (sim_price_ratio (e_price E) (e_cost E))"
  defines "trigger \<equiv> (stock s1 \<le> get_reorder_point (fst calc) \<and> days_to_delivery s1 = 0)"
  shows "daily_results s' = daily_results s @ [r]"
    and "d_day r = int k + 1" and "d_demand r = d"
    and "d_sold r = min (stock s1) d" and "d_missed r = int_sub (e_drawn E) d (d_sold r)"
    and "d_stock r = stock s'" and "stock s' = int_sub (e_drawn E) (stock s1) (d_sold r)"
    and "d_state r = key"
    and "d_action r = Order \<longleftrightarrow>
           fst (sim_should_order R (q_values s) key trigger (snd calc)) \<and> days_to_delivery s1 = 0"
    and "d_ordered r = (if d_action r = Order then get_economic_order_quantity (fst calc) else 0)"
    and "days_to_delivery s' = (if d_action r = Order then e_lead_time E else days_to_delivery s1)"
    and "pending_delivery s' = (if d_action r = Order then d_ordered r else pending_delivery s1)"
    and "ordering_cost_total s' =
           ordering_cost_total s + (if d_action r = Order then ordering_cost else 0)"
    and "d_revenue r = of_int (d_sold r) * e_price E"
    and "d_profit r = d_revenue r - of_int (d_sold r) * e_cost E
           - of_int (stock s') * (e_cost E * holding_cost_rate / 365)
           - of_int (d_missed r) * (e_price E * stockout_penalty)
           - (if d_action r = Order then ordering_cost else 0)"
    and "q_values s' = update_policy (q_values s) key (d_action r) (d_profit r)
           (state_to_key (stock s') (sim_demand_level (e_mean_demand E) nd)
              (sim_price_ratio (e_price E) (e_cost E)))"
    and "rng_state s' = snd (sim_should_order R (q_values s) key trigger (snd calc))"
  unfolding r_def s'_def s1_def calc_def key_def trigger_def
  by (auto simp: day_body_def Let_def split_beta receive_delivery_same)

section \<open>The classical calculator on the specification's scenario\<close>

lemma calc_scenario:
  "calculate_optimal_order_quantity R scenario q g =
     (Recommendation
        \<lparr>order_quantity =
           (if fst (eoq_should_order R q ''very_low_low_high'' 0 70 g) then 1116 else 0),
         reorder_point = 70, economic_order_quantity = 1046, safety_stock = 0,
         avg_demand = 10, lead_time = 7, current_stock = 0,
         should_order = fst (eoq_should_order R q ''very_low_low_high'' 0 70 g),
         state_key = ''very_low_low_high''\<rparr>,
      snd (eoq_should_order R q ''very_low_low_high'' 0 70 g))"
  by (simp add: calculate_optimal_order_quantity_def scenario_def sql_avg_replicate
      eoq_avg_demand_def eoq_std_demand_def np_std_replicate eoq_ex ss_ex rp_ex
      eoq_demand_level_def eoq_price_ratio_def state_to_key_def Let_def split: prod.splits)

text \<open>
  Claim C5, as amended. On the scenario (thirty days of 10 units, unit cost 5, price 12,
  lead time 7, ordering cost 15, holding rate 0.02) the calculator has a holding cost of
  0.10, an annual demand of 3650, a standard deviation of 0, a safety stock of 0 and a
  reorder point of 70, and its economic order quantity is
  round(sqrt(2 * 3650 * 15 / 0.10)) = round(1046.42...) = 1046, whatever the Q-table and
  the random source are.
\<close>

theorem scenario_quantities:
  "holding_cost_of 5 = 0.10 \<and> annual_demand_of (eoq_avg_demand 10) = 3650 \<and>
   eoq_std_demand (window_sales scenario) 10 = 0 \<and>
   (\<exists>r. fst (calculate_optimal_order_quantity R scenario q g) = Recommendation r \<and>
        economic_order_quantity r = 1046 \<and> safety_stock r = 0 \<and> reorder_point r = 70 \<and>
        avg_demand r = 10 \<and> lead_time r = 7)"
proof -
  have "holding_cost_of 5 = 0.10"
    by (simp add: holding_cost_of_def holding_cost_rate_def)
  moreover have "annual_demand_of (eoq_avg_demand 10) = 3650"
    by (simp add: annual_demand_of_def eoq_avg_demand_def)
  moreover have "eoq_std_demand (window_sales scenario) 10 = 0"
    by (simp add: eoq_std_demand_def scenario_def np_std_replicate)
  moreover have "\<exists>r. fst (calculate_optimal_order_quantity R scenario q g) = Recommendation r \<and>
        economic_order_quantity r = 1046 \<and> safety_stock r = 0 \<and> reorder_point r = 70 \<and>
        avg_demand r = 10 \<and> lead_time r = 7"
    by (simp add: calc_scenario)
  ultimately show ?thesis by blast
qed

text \<open>
  Claim C5, as stated, gives 1044 for the economic order quantity. The calculator returns
  1046, which is not within one unit of 1044.
\<close>

theorem scenario_eoq_not_1044:
  "get_economic_order_quantity (fst (calculate_optimal_order_quantity ex_rng scenario Map.empty 0)) = 1046
   \<and> \<not> \<bar>get_economic_order_quantity
          (fst (calculate_optimal_order_quantity ex_rng scenario Map.empty 0)) - 1044\<bar> \<le> 1"
  by (simp add: calc_scenario get_economic_order_quantity_def)

section \<open>Invariants of a run\<close>

lemma run_invariant:
  assumes su: "sim_setup R up price cost q g days = (E, s0)"
    and init: "I s0"
    and step: "\<And>j d nd s. j < nat days \<Longrightarrow> I s \<Longrightarrow> I (day_body R up E j d nd s)"
  shows "k \<le> nat days \<Longrightarrow> \<exists>s. simulate_loop R up E 0 k s0 = Inr s \<and> I s"
proof (induction k)
  case 0
  then show ?case using init by simp
next
  case (Suc k)
  then obtain s where s: "simulate_loop R up E 0 k s0 = Inr s" and Is: "I s" by auto
  have days: "0 \<le> days" using Suc.prems by simp
  have len: "length (e_daily_demand E) = nat (e_days E)"
    using sim_setup_length[OF su days] .
  have kk: "k < nat (e_days E)" using Suc.prems sim_setup_env(1)[OF su] by simp
  have "simulate_loop R up E 0 (Suc k) s0 = simulate_day R up E k s"
    using loop_Suc_end[of R up E 0 k s0] s by simp
  also note simulate_day_ok[OF len kk, of R up s]
  finally show ?case using step[of k s] Is Suc.prems by simp
qed

lemma get_eoq_indep:
  "get_economic_order_quantity (fst (calculate_optimal_order_quantity R up q g)) =
   get_economic_order_quantity (fst (calculate_optimal_order_quantity R' up q' g'))"
  by (simp add: calculate_optimal_order_quantity_def get_economic_order_quantity_def Let_def
      split_beta split: option.splits)

lemma run_invariant_ix:
  assumes su: "sim_setup R up price cost q g days = (E, s0)"
    and init: "I 0 s0"
    and step: "\<And>j s. j < nat days \<Longrightarrow> I j s \<Longrightarrow>
       I (Suc j) (day_body R up E j (e_daily_demand E ! j)
          (e_daily_demand E ! nat (min (int j + 1) (e_days E - 1))) s)"
  shows "k \<le> nat days \<Longrightarrow> \<exists>s. simulate_loop R up E 0 k s0 = Inr s \<and> I k s"
proof (induction k)
  case 0
  then show ?case using init by simp
next
  case (Suc k)
  then obtain s where s: "simulate_loop R up E 0 k s0 = Inr s" and Is: "I k s" by auto
  have days: "0 \<le> days" using Suc.prems by simp
  have len: "length (e_daily_demand E) = nat (e_days E)"
    using sim_setup_length[OF su days] .
  have kk: "k < nat (e_days E)" using Suc.prems sim_setup_env(1)[OF su] by simp
  have "simulate_loop R up E 0 (Suc k) s0 = simulate_day R up E k s"
    using loop_Suc_end[of R up E 0 k s0] s by simp
  also note simulate_day_ok[OF len kk, of R up s]
  finally show ?case using step[of k s] Is Suc.prems by simp
qed

lemma day_body_bounds:
  fixes R up E k d nd s
  defines "s1 \<equiv> receive_delivery E s"
    and "s' \<equiv> day_body R up E k d nd s"
  defines "r \<equiv> last (daily_results s')"
  assumes st: "0 \<le> stock s" and pe: "0 \<le> pending_delivery s"
    and np: "e_drawn E \<longrightarrow> 0 \<le> d \<and> d < 2 ^ 63 \<and> stock s + pending_delivery s \<le> B \<and>
       B + get_economic_order_quantity
             (fst (calculate_optimal_order_quantity R up (q_values s) (rng_state s))) < 2 ^ 63"
  shows "0 \<le> stock s1" and "stock s1 = stock s + delivered s"
    and "0 \<le> stock s'" and "0 \<le> pending_delivery s'"
    and "stock s' = stock s1 - d_sold r" and "d_missed r = d - d_sold r"
    and "e_drawn E \<longrightarrow> stock s' + pending_delivery s' \<le> B + get_economic_order_quantity
             (fst (calculate_optimal_order_quantity R up (q_values s) (rng_state s)))"
proof -
  define Q where "Q = get_economic_order_quantity
             (fst (calculate_optimal_order_quantity R up (q_values s) (rng_state s)))"
  have Q0: "0 \<le> Q" unfolding Q_def by (rule get_eoq_nonneg)
  note f = day_body_facts[of R up E k d nd s, folded s'_def s1_def r_def Q_def]
  have a: "stock s1 = stock s + delivered s"
  proof (cases "e_drawn E")
    case True
    then have "stock s + pending_delivery s < 2 ^ 63" using np Q0 unfolding Q_def by simp
    then have "int_add (e_drawn E) (stock s) (pending_delivery s) = stock s + pending_delivery s"
      using st pe by (intro int_add_id) simp_all
    then show ?thesis unfolding s1_def by (simp add: receive_delivery_fields delivered_def)
  next
    case False
    then show ?thesis unfolding s1_def by (simp add: receive_delivery_fields delivered_def)
  qed
  have p1: "pending_delivery s1 = (if days_to_delivery s = 1 then 0 else pending_delivery s)"
    unfolding s1_def by (simp add: receive_delivery_fields)
  have d0: "0 \<le> delivered s" using pe by (simp add: delivered_def)
  show b: "0 \<le> stock s1" using a st d0 by simp
  show "stock s1 = stock s + delivered s" by (rule a)
  have sum1: "stock s1 + pending_delivery s1 = stock s + pending_delivery s"
    using a p1 by (simp add: delivered_def)
  have pe1: "0 \<le> pending_delivery s1" using p1 pe by simp
  have sold: "d_sold r = min (stock s1) d" using f(4) .
  have c: "stock s' = stock s1 - d_sold r \<and> d_missed r = d - d_sold r"
  proof (cases "e_drawn E")
    case True
    then have d: "0 \<le> d" and du: "d < 2 ^ 63"
      and B: "stock s + pending_delivery s \<le> B" and BQ: "B + Q < 2 ^ 63"
      using np unfolding Q_def by simp_all
    have s1b: "stock s1 < 2 ^ 63" using sum1 pe1 B BQ Q0 by simp
    have so0: "0 \<le> d_sold r" "d_sold r \<le> stock s1" "d_sold r \<le> d"
      using sold b d by simp_all
    have "int_sub (e_drawn E) (stock s1) (d_sold r) = stock s1 - d_sold r"
      using so0 s1b by (intro int_sub_id) simp_all
    moreover have "int_sub (e_drawn E) d (d_sold r) = d - d_sold r"
      using so0 du by (intro int_sub_id) simp_all
    ultimately show ?thesis using f(5) f(7) by simp
  next
    case False
    then show ?thesis using f(5) f(7) by simp
  qed
  show "stock s' = stock s1 - d_sold r" using c by simp
  show "d_missed r = d - d_sold r" using c by simp
  show e: "0 \<le> stock s'" using c sold b by simp
  have pq: "pending_delivery s' \<le> pending_delivery s1 + Q" "0 \<le> pending_delivery s'"
    using f(10) f(12) pe1 Q0 by (simp_all split: if_splits)
  show "0 \<le> pending_delivery s'" using pq by simp
  show "e_drawn E \<longrightarrow> stock s' + pending_delivery s' \<le> B + Q"
  proof
    assume "e_drawn E"
    then have d: "0 \<le> d" and B: "stock s + pending_delivery s \<le> B" using np by simp_all
    have "0 \<le> d_sold r" using sold b d by simp
    then show "stock s' + pending_delivery s' \<le> B + Q" using c pq sum1 B by simp
  qed
qed

lemma np_astype_int_range: "- (2 ^ 63) \<le> np_astype_int x \<and> np_astype_int x < 2 ^ 63"
  by (simp add: np_astype_int_def Let_def)

lemma drawn_demand_range:
  assumes su: "sim_setup R up price cost q g days = (E, s0)"
    and dr: "e_drawn E" and d: "d \<in> set (e_daily_demand E)"
  shows "d < 2 ^ 63"
proof -
  have "\<not> days \<le> int (length (last_sales up))" using sim_setup_env(7)[OF su] dr by simp
  then have "\<exists>xs. e_daily_demand E = map (\<lambda>x. np_astype_int (max 1 x)) xs"
    unfolding sim_setup_env(6)[OF su]
    by (auto simp: make_daily_demand_def split_beta)
  then show ?thesis using d np_astype_int_range by auto
qed

lemma run_bounds:
  assumes su: "sim_setup R up price cost q g days = (E, s0)"
    and st: "0 \<le> sim_current_stock up"
    and nov: "e_drawn E \<longrightarrow> (\<forall>d\<in>set (e_daily_demand E). 0 \<le> d) \<and>
       sim_current_stock up + days *
         get_economic_order_quantity (fst (calculate_optimal_order_quantity R up q g)) < 2 ^ 63"
    and k: "k \<le> nat days"
  shows "\<exists>s. simulate_loop R up E 0 k s0 = Inr s \<and> 0 \<le> stock s \<and> 0 \<le> pending_delivery s \<and>
     (e_drawn E \<longrightarrow> stock s + pending_delivery s \<le> sim_current_stock up + int k *
         get_economic_order_quantity (fst (calculate_optimal_order_quantity R up q g)))"
proof -
  define Q where "Q = get_economic_order_quantity (fst (calculate_optimal_order_quantity R up q g))"
  have Q0: "0 \<le> Q" unfolding Q_def by (rule get_eoq_nonneg)
  define I where "I = (\<lambda>j (s :: 'a loop_state). 0 \<le> stock s \<and> 0 \<le> pending_delivery s \<and>
     (e_drawn E \<longrightarrow> stock s + pending_delivery s \<le> sim_current_stock up + int j * Q))"
  have init: "I 0 s0" unfolding I_def using sim_setup_state[OF su] st by simp
  have step: "I (Suc j) (day_body R up E j (e_daily_demand E ! j)
          (e_daily_demand E ! nat (min (int j + 1) (e_days E - 1))) s)"
    if j: "j < nat days" and Is: "I j s" for j s
  proof -
    have days: "0 \<le> days" using j by simp
    have len: "length (e_daily_demand E) = nat days"
      using sim_setup_length[OF su days] sim_setup_env(1)[OF su] by simp
    have mem: "e_daily_demand E ! j \<in> set (e_daily_demand E)" using len j by simp
    have Qs: "get_economic_order_quantity
             (fst (calculate_optimal_order_quantity R up (q_values s) (rng_state s))) = Q"
      unfolding Q_def by (rule get_eoq_indep)
    have jd: "int j + 1 \<le> days" using j by simp
    have "(int j + 1) * Q \<le> days * Q" using jd Q0 by (rule mult_right_mono)
    then have le: "sim_current_stock up + int j * Q + Q \<le> sim_current_stock up + days * Q"
      by (simp add: algebra_simps)
    have np: "e_drawn E \<longrightarrow> 0 \<le> e_daily_demand E ! j \<and> e_daily_demand E ! j < 2 ^ 63 \<and>
        stock s + pending_delivery s \<le> sim_current_stock up + int j * Q \<and>
        sim_current_stock up + int j * Q + get_economic_order_quantity
             (fst (calculate_optimal_order_quantity R up (q_values s) (rng_state s))) < 2 ^ 63"
      using nov mem drawn_demand_range[OF su _ mem] Is le unfolding I_def Qs Q_def[symmetric]
      by auto
    from Is have a: "0 \<le> stock s" and b: "0 \<le> pending_delivery s" unfolding I_def by simp_all
    show ?thesis unfolding I_def
      using day_body_bounds(3,4,7)[OF a b np, where k = j
          and nd = "e_daily_demand E ! nat (min (int j + 1) (e_days E - 1))"]
      unfolding Qs by (simp add: algebra_simps)
  qed
  from run_invariant_ix[OF su, where I = I, OF init step k]
  show ?thesis unfolding I_def Q_def by simp
qed

end
